theory Spec2Isabelle
  imports Complex_Main "HOL-Library.Sublist" "HOL-Library.Product_Lexorder"
    "HOL-Library.Option_ord"
begin

section \<open>Python primitives used by the backend\<close>

text \<open>
  Exceptions are values. \<open>ValueError\<close> carries its message; \<open>IndexError\<close> is what
  \<^verbatim>\<open>xs[0]\<close> and \<^verbatim>\<open>xs[-1]\<close> raise on an empty list; \<open>ProviderError\<close> stands for any
  exception that escapes a call into a provider SDK (network, quota, HTTP 5xx);
  \<open>StorageError\<close> for any exception that the database raises when a statement is executed
  or a row is flushed.
\<close>

datatype py_error = ValueError string | IndexError | ProviderError string | StorageError string

text \<open>
  A slice bound of \<^verbatim>\<open>text[start:stop]\<close>: a negative bound counts from the end, and
  the result is clamped to \<open>0 .. len\<close>.
\<close>

definition py_clamp :: "int \<Rightarrow> nat \<Rightarrow> nat" where
  "py_clamp i n = (if i < 0 then nat (max 0 (i + int n)) else min (nat i) n)"

definition py_slice :: "'a list \<Rightarrow> int \<Rightarrow> int \<Rightarrow> 'a list" where
  "py_slice text start stop =
     (let lo = py_clamp start (length text); hi = py_clamp stop (length text)
      in take (hi - lo) (drop lo text))"

text \<open>Truthiness of an \<^verbatim>\<open>Optional[str]\<close>: \<^verbatim>\<open>None\<close> and \<^verbatim>\<open>""\<close> are falsy.\<close>

definition truthy :: "string option \<Rightarrow> bool" where
  "truthy s = (case s of None \<Rightarrow> False | Some v \<Rightarrow> v \<noteq> [])"

section \<open>Chunker (backend/shared/utils.py)\<close>

text \<open>
  The \<^verbatim>\<open>while start < text_length\<close> loop of \<^verbatim>\<open>chunk_text\<close>, with the loop variables
  \<open>start\<close> and \<open>chunks\<close> as arguments. The loop need not terminate, so the result is an
  option: \<open>None\<close> is "never returns". The text is a sequence of code points of any type.
\<close>

partial_function (option) chunk_loop ::
  "'a list \<Rightarrow> int \<Rightarrow> int \<Rightarrow> int \<Rightarrow> 'a list list \<Rightarrow> 'a list list option" where
  "chunk_loop text chunk_size overlap start chunks =
     (if start < int (length text)
      then chunk_loop text chunk_size overlap (start + chunk_size - overlap)
             (chunks @ [py_slice text start (start + chunk_size)])
      else Some chunks)"

definition chunk_text :: "'a list \<Rightarrow> int \<Rightarrow> int \<Rightarrow> 'a list list option" where
  "chunk_text text chunk_size overlap = chunk_loop text chunk_size overlap 0 []"

text \<open>
  The reading of "concatenated with overlap removed": the first chunk whole, every later
  chunk without its leading \<open>overlap\<close> characters.
\<close>

definition reconstruct :: "int \<Rightarrow> 'a list list \<Rightarrow> 'a list" where
  "reconstruct overlap chunks =
     (case chunks of [] \<Rightarrow> [] | c # cs \<Rightarrow> c @ concat (map (drop (nat overlap)) cs))"

section \<open>Provider adapter layer (backend/chat/ai_client.py)\<close>

text \<open>
  A chat message is a dict with the keys \<^verbatim>\<open>role\<close> and \<^verbatim>\<open>content\<close>. Sampling parameters are
  passed through to the provider unchanged.
\<close>

record message =
  msg_role :: string
  msg_content :: string

record sampling =
  temperature :: real
  max_tokens :: int

record settings =
  ANTHROPIC_API_KEY :: "string option"
  GOOGLE_AI_API_KEY :: "string option"
  VERTEX_AI_PROJECT :: "string option"
  VERTEX_AI_LOCATION :: string
  EMBEDDING_MODEL :: string

type_synonym embedding = "real list"

text \<open>What the provider SDKs hand back.\<close>

record anthropic_message =
  am_id :: string
  am_content :: "string list"
  am_stop_reason :: string
  am_input_tokens :: int
  am_output_tokens :: int

record claude_kwargs =
  kw_model :: string
  kw_messages :: "message list"
  kw_temperature :: real
  kw_max_tokens :: int
  kw_system :: "string option"
  kw_thinking_budget :: "int option"

record gemini_message =
  gm_role :: string
  gm_text :: string

record gemini_response =
  gr_text :: string
  gr_total_token_count :: "int option"
  gr_candidates :: "nat option"

record gemini_chunk =
  gc_text :: string
  gc_total_token_count :: "int option"

text \<open>
  The remote services, as functions of the request. A streamed answer is the list of
  pieces received and, when the transport fails part-way, the exception that ends it.
  \<open>get_embeddings\<close> also takes the number of the request within the running operation,
  so that two requests for the same text may be answered differently.
\<close>

record provider =
  messages_create :: "claude_kwargs \<Rightarrow> py_error + anthropic_message"
  messages_stream :: "claude_kwargs \<Rightarrow> py_error + string list \<times> (py_error + anthropic_message)"
  generate_content ::
    "string \<Rightarrow> string option \<Rightarrow> gemini_message list \<Rightarrow> sampling \<Rightarrow> py_error + gemini_response"
  generate_content_stream ::
    "string \<Rightarrow> gemini_message list \<Rightarrow> sampling \<Rightarrow> py_error + gemini_chunk list \<times> py_error option"
  chat_send_message :: "string \<Rightarrow> string list \<Rightarrow> string \<Rightarrow> py_error + string"
  get_embeddings :: "string \<Rightarrow> nat \<Rightarrow> string \<Rightarrow> py_error + embedding"

text \<open>The unified results.\<close>

record completion_result =
  cr_id :: string
  cr_model :: string
  cr_role :: string
  cr_content :: string
  cr_tokens_used :: int
  cr_finish_reason :: string
  cr_metadata :: "(string \<times> int) list"

record done_message =
  dm_id :: string
  dm_model :: "string option"
  dm_tokens_used :: int
  dm_finish_reason :: string

datatype stream_event = Content string | Done done_message

text \<open>
  An event stream: the events the async iterator yields when consumed, and the exception
  that ends the iteration, if one does.
\<close>

type_synonym event_stream = "stream_event list \<times> py_error option"

datatype completion = Unified completion_result | Streaming event_stream

text \<open>
  What a call does besides computing its result: the SDK clients and model handles it
  constructs and the network requests it sends (for a stream, those sent when the stream
  is consumed), in order.
\<close>

datatype effect = ClientConstructed string | NetworkCall string

record ai_client =
  anthropic_client :: bool

definition AIClient_init :: "settings \<Rightarrow> effect list \<times> ai_client" where
  "AIClient_init cfg =
     ((if truthy (ANTHROPIC_API_KEY cfg) then [ClientConstructed ''anthropic.AsyncAnthropic''] else [])
      @ (if truthy (GOOGLE_AI_API_KEY cfg) then [ClientConstructed ''genai.configure''] else [])
      @ (if truthy (VERTEX_AI_PROJECT cfg) then [ClientConstructed ''aiplatform.init''] else []),
      \<lparr>anthropic_client = truthy (ANTHROPIC_API_KEY cfg)\<rparr>)"

text \<open>\<^verbatim>\<open>model_map.get(model, model)\<close>.\<close>

definition dict_get :: "(string \<times> string) list \<Rightarrow> string \<Rightarrow> string \<Rightarrow> string" where
  "dict_get d k dflt = (case map_of d k of None \<Rightarrow> dflt | Some v \<Rightarrow> v)"

definition claude_stream :: "provider \<Rightarrow> claude_kwargs \<Rightarrow> event_stream" where
  "claude_stream prov kwargs =
     (case messages_stream prov kwargs of
        Inl e \<Rightarrow> ([], Some e)
      | Inr (texts, final) \<Rightarrow>
          (case final of
             Inl e \<Rightarrow> (map Content texts, Some e)
           | Inr m \<Rightarrow>
               (map Content texts @
                  [Done \<lparr>dm_id = am_id m, dm_model = Some (kw_model kwargs),
                         dm_tokens_used = am_input_tokens m + am_output_tokens m,
                         dm_finish_reason = am_stop_reason m\<rparr>],
                None)))"

definition claude_completion ::
  "ai_client \<Rightarrow> provider \<Rightarrow> string \<Rightarrow> message list \<Rightarrow> sampling \<Rightarrow> bool \<Rightarrow> string option \<Rightarrow> bool
     \<Rightarrow> effect list \<times> (py_error + completion)" where
  "claude_completion self prov model messages samp stream system_prompt use_extended_thinking =
     (if \<not> anthropic_client self
      then ([], Inl (ValueError ''Anthropic API key not configured''))
      else
        let model_map = [(''claude-sonnet-4.5'', ''claude-sonnet-4.5-20250929''),
                         (''claude-opus-4.1'', ''claude-opus-4-20250514'')];
            anthropic_model = dict_get model_map model model;
            claude_messages =
              map (\<lambda>msg. \<lparr>msg_role = msg_role msg, msg_content = msg_content msg\<rparr>) messages;
            kwargs = \<lparr>kw_model = anthropic_model, kw_messages = claude_messages,
                      kw_temperature = temperature samp, kw_max_tokens = max_tokens samp,
                      kw_system = (if truthy system_prompt then system_prompt else None),
                      kw_thinking_budget = (if use_extended_thinking then Some 10000 else None)\<rparr>
        in if stream
           then ([NetworkCall ''anthropic.messages.stream''],
                 Inr (Streaming (claude_stream prov kwargs)))
           else
             (case messages_create prov kwargs of
                Inl e \<Rightarrow> ([NetworkCall ''anthropic.messages.create''], Inl e)
              | Inr response \<Rightarrow>
                  ([NetworkCall ''anthropic.messages.create''],
                   (case am_content response of
                      [] \<Rightarrow> Inl IndexError
                    | t # _ \<Rightarrow>
                        Inr (Unified
                          \<lparr>cr_id = am_id response, cr_model = model, cr_role = ''assistant'',
                           cr_content = t,
                           cr_tokens_used = am_input_tokens response + am_output_tokens response,
                           cr_finish_reason = am_stop_reason response,
                           cr_metadata = [(''input_tokens'', am_input_tokens response),
                                          (''output_tokens'', am_output_tokens response)]\<rparr>)))))"

text \<open>
  \<^verbatim>\<open>_gemini_stream\<close>: \<open>total_tokens\<close> is set to 0 and is not assigned again; a content event
  is yielded for each received piece with a non-empty text; the terminal event follows
  the last piece.
\<close>

definition gemini_stream ::
  "provider \<Rightarrow> string \<Rightarrow> gemini_message list \<Rightarrow> sampling \<Rightarrow> string option \<Rightarrow> event_stream" where
  "gemini_stream prov model_name messages generation_config system_prompt =
     (let total_tokens = 0 in
      case generate_content_stream prov model_name messages generation_config of
        Inl e \<Rightarrow> ([], Some e)
      | Inr (response, failure) \<Rightarrow>
          (map (\<lambda>chunk. Content (gc_text chunk)) (filter (\<lambda>chunk. gc_text chunk \<noteq> []) response)
           @ (case failure of
                Some e \<Rightarrow> []
              | None \<Rightarrow> [Done \<lparr>dm_id = ''gemini-stream'', dm_model = None,
                               dm_tokens_used = total_tokens, dm_finish_reason = ''stop''\<rparr>]),
           failure))"

definition gemini_completion ::
  "provider \<Rightarrow> string \<Rightarrow> message list \<Rightarrow> sampling \<Rightarrow> bool \<Rightarrow> string option
     \<Rightarrow> effect list \<times> (py_error + completion)" where
  "gemini_completion prov model messages samp stream system_prompt =
     (let model_map = [(''gemini-2.5-flash'', ''gemini-2.5-flash''),
                       (''gemini-2.5-pro'', ''gemini-2.5-pro'')];
          gemini_model_name = dict_get model_map model model;
          gemini_messages =
            map (\<lambda>msg. \<lparr>gm_role = (if msg_role msg = ''user'' then ''user'' else ''model''),
                         gm_text = msg_content msg\<rparr>) messages
      in if stream
         then ([ClientConstructed ''vertexai.GenerativeModel'',
                NetworkCall ''vertexai.generate_content_async''],
               Inr (Streaming (gemini_stream prov gemini_model_name gemini_messages samp system_prompt)))
         else
           let constructed =
                 ClientConstructed ''vertexai.GenerativeModel'' #
                 (if truthy system_prompt then [ClientConstructed ''vertexai.GenerativeModel''] else []);
               system_instruction = (if truthy system_prompt then system_prompt else None)
           in (case generate_content prov gemini_model_name system_instruction gemini_messages samp of
                 Inl e \<Rightarrow> (constructed @ [NetworkCall ''vertexai.generate_content_async''], Inl e)
               | Inr response \<Rightarrow>
                   (constructed @ [NetworkCall ''vertexai.generate_content_async''],
                    Inr (Unified
                      \<lparr>cr_id = ''gemini-'' @ model, cr_model = model, cr_role = ''assistant'',
                       cr_content = gr_text response,
                       cr_tokens_used =
                         (case gr_total_token_count response of Some n \<Rightarrow> n | None \<Rightarrow> 0),
                       cr_finish_reason = ''stop'',
                       cr_metadata =
                         [(''candidates'',
                           (case gr_candidates response of Some n \<Rightarrow> int n | None \<Rightarrow> 1))]\<rparr>))))"

text \<open>
  The Gemma chat session: each message is sent with the history of what was sent before;
  the first failing send ends the call.
\<close>

fun gemma_send_all ::
  "provider \<Rightarrow> string \<Rightarrow> string list \<Rightarrow> string list \<Rightarrow> effect list
     \<Rightarrow> effect list \<times> (py_error + string list)" where
  "gemma_send_all prov name history [] effs = (effs, Inr history)"
| "gemma_send_all prov name history (m # ms) effs =
     (case chat_send_message prov name history m of
        Inl e \<Rightarrow> (effs @ [NetworkCall ''vertexai.chat.send_message''], Inl e)
      | Inr reply \<Rightarrow>
          gemma_send_all prov name (history @ [m]) ms
            (effs @ [NetworkCall ''vertexai.chat.send_message'']))"

definition gemma_completion ::
  "provider \<Rightarrow> string \<Rightarrow> message list \<Rightarrow> sampling \<Rightarrow> bool \<Rightarrow> string option
     \<Rightarrow> effect list \<times> (py_error + completion)" where
  "gemma_completion prov model messages samp stream system_prompt =
     (let model_map = [(''gemma-7b'', ''gemma-7b-it''), (''gemma-2b'', ''gemma-2b-it'')];
          gemma_model_name = dict_get model_map model model;
          loaded = [ClientConstructed ''vertexai.ChatModel.from_pretrained''];
          earlier =
            (if truthy system_prompt then [''System: '' @ the system_prompt] else [])
            @ map msg_content (filter (\<lambda>msg. msg_role msg = ''user'') (butlast messages))
      in case gemma_send_all prov gemma_model_name [] earlier loaded of
           (effs, Inl e) \<Rightarrow> (effs, Inl e)
         | (effs, Inr history) \<Rightarrow>
             (if messages = [] then (effs, Inl IndexError)
              else
                (case chat_send_message prov gemma_model_name history (msg_content (last messages)) of
                   Inl e \<Rightarrow> (effs @ [NetworkCall ''vertexai.chat.send_message_async''], Inl e)
                 | Inr reply \<Rightarrow>
                     (effs @ [NetworkCall ''vertexai.chat.send_message_async''],
                      Inr (Unified
                        \<lparr>cr_id = ''gemma-'' @ model, cr_model = model, cr_role = ''assistant'',
                         cr_content = reply, cr_tokens_used = 0, cr_finish_reason = ''stop'',
                         cr_metadata = []\<rparr>)))))"

text \<open>\<^verbatim>\<open>AIClient.chat_completion\<close>: the dispatch on the prefix of the model identifier.\<close>

definition chat_completion ::
  "ai_client \<Rightarrow> provider \<Rightarrow> string \<Rightarrow> message list \<Rightarrow> sampling \<Rightarrow> bool \<Rightarrow> string option \<Rightarrow> bool
     \<Rightarrow> effect list \<times> (py_error + completion)" where
  "chat_completion self prov model messages samp stream system_prompt use_extended_thinking =
     (if prefix ''claude'' model
      then claude_completion self prov model messages samp stream system_prompt use_extended_thinking
      else if prefix ''gemini'' model
      then gemini_completion prov model messages samp stream system_prompt
      else if prefix ''gemma'' model
      then gemma_completion prov model messages samp stream system_prompt
      else ([], Inl (ValueError (''Unsupported model: '' @ model))))"

definition generate_embedding :: "provider \<Rightarrow> settings \<Rightarrow> nat \<Rightarrow> string \<Rightarrow> py_error + embedding" where
  "generate_embedding prov cfg n t = get_embeddings prov (EMBEDDING_MODEL cfg) n t"

text \<open>
  Every call of \<^verbatim>\<open>generate_embedding\<close> loads the embedding model handle and sends one
  request, whatever the answer.
\<close>

definition generate_embedding_effects :: "effect list" where
  "generate_embedding_effects =
     [ClientConstructed ''vertexai.TextEmbeddingModel.from_pretrained'',
      NetworkCall ''vertexai.get_embeddings_async'']"

section \<open>Storage (database/models.py)\<close>

text \<open>
  Rows of the tables \<^verbatim>\<open>documents\<close>, \<^verbatim>\<open>document_chunks\<close> and \<^verbatim>\<open>memories\<close>. A UUID is a
  natural number, a timestamp a natural number, a JSON column a list of key-value pairs.
\<close>

type_synonym uuid = nat

datatype json = JNull | JBool bool | JInt int | JStr string

type_synonym metadata = "(string \<times> json) list"

record document =
  doc_id :: uuid
  doc_user_id :: uuid
  doc_title :: string
  doc_content :: string
  doc_file_path :: "string option"
  doc_mime_type :: "string option"
  doc_size_bytes :: nat
  doc_metadata :: metadata
  doc_created_at :: nat
  doc_updated_at :: nat

record document_chunk =
  chunk_id :: uuid
  chunk_document_id :: uuid
  chunk_index :: nat
  chunk_content :: string
  chunk_embedding :: "embedding option"
  chunk_metadata :: metadata
  chunk_created_at :: nat

record memory =
  mem_id :: uuid
  mem_user_id :: uuid
  mem_chat_id :: "uuid option"
  mem_memory_type :: string
  mem_content :: string
  mem_embedding :: "embedding option"
  mem_importance_score :: real
  mem_metadata :: metadata
  mem_created_at :: nat
  mem_updated_at :: nat

text \<open>
  The committed state of the database: the identifiers of the rows of \<^verbatim>\<open>users\<close>, the three
  tables in storage order, and the clock read by \<^verbatim>\<open>datetime.utcnow()\<close>.
\<close>

record db_state =
  users :: "uuid list"
  documents :: "document list"
  document_chunks :: "document_chunk list"
  memories :: "memory list"
  clock :: nat

text \<open>\<^verbatim>\<open>uuid4()\<close> returns an identifier that no row of the state uses.\<close>

definition used_ids :: "db_state \<Rightarrow> uuid list" where
  "used_ids st =
     map doc_id (documents st) @ map chunk_id (document_chunks st)
     @ map chunk_document_id (document_chunks st) @ map mem_id (memories st)"

definition uuid4 :: "db_state \<Rightarrow> uuid" where
  "uuid4 st = Suc (foldr max (used_ids st) 0)"

text \<open>
  \<^verbatim>\<open>len(content.encode('utf-8'))\<close> for a text of code points below 256: one byte below
  128, two bytes from 128 on.
\<close>

definition utf8_len :: "string \<Rightarrow> nat" where
  "utf8_len s = sum_list (map (\<lambda>c. if of_char c < (128::nat) then 1 else 2) s)"

text \<open>
  What the declared columns accept when a row is flushed. A text column holds no NUL
  character; \<^verbatim>\<open>title\<close> is \<^verbatim>\<open>String(500)\<close>, \<^verbatim>\<open>mime_type\<close> is \<^verbatim>\<open>String(100)\<close>; \<^verbatim>\<open>user_id\<close> is a foreign
  key into \<^verbatim>\<open>users\<close>; \<^verbatim>\<open>embedding\<close> is a nullable \<^verbatim>\<open>Vector(1536)\<close>.
\<close>

definition text_ok :: "string \<Rightarrow> bool" where
  "text_ok s = (CHR 0x00 \<notin> set s)"

definition vector_ok :: "embedding option \<Rightarrow> bool" where
  "vector_ok e = (case e of None \<Rightarrow> True | Some v \<Rightarrow> length v = 1536)"

definition document_row_ok :: "db_state \<Rightarrow> document \<Rightarrow> bool" where
  "document_row_ok st d =
     (doc_user_id d \<in> set (users st)
      \<and> length (doc_title d) \<le> 500 \<and> text_ok (doc_title d)
      \<and> text_ok (doc_content d)
      \<and> (case doc_file_path d of None \<Rightarrow> True | Some p \<Rightarrow> text_ok p)
      \<and> (case doc_mime_type d of None \<Rightarrow> True | Some m \<Rightarrow> length m \<le> 100 \<and> text_ok m))"

text \<open>
  A chunk's content is a slice of its document's content, which the document row has
  passed; what is left to check on a chunk row is its vector.
\<close>

definition chunk_row_ok :: "document_chunk \<Rightarrow> bool" where
  "chunk_row_ok c = vector_ok (chunk_embedding c)"

text \<open>The chunks a session has added to the state it started from.\<close>

definition added_chunks :: "db_state \<Rightarrow> db_state \<Rightarrow> document_chunk list" where
  "added_chunks st st' = drop (length (document_chunks st)) (document_chunks st')"

section \<open>Document store (backend/rag/service.py)\<close>

record document_create =
  dc_title :: string
  dc_content :: string
  dc_mime_type :: "string option"
  dc_metadata :: metadata
  dc_user_id :: uuid

record document_update =
  du_title :: "string option"
  du_content :: "string option"
  du_metadata :: "metadata option"

text \<open>
  The loop \<^verbatim>\<open>for idx, chunk_content in enumerate(chunks)\<close>, which \<^verbatim>\<open>create_document\<close> and
  \<^verbatim>\<open>_rechunk_document\<close> both run: the embedding is requested inside \<^verbatim>\<open>try\<close>, any
  exception leaves \<^verbatim>\<open>embedding = None\<close>, and the chunk is added to the session.
\<close>

fun add_chunks ::
  "provider \<Rightarrow> settings \<Rightarrow> uuid \<Rightarrow> (nat \<times> string) list \<Rightarrow> db_state \<Rightarrow> db_state" where
  "add_chunks prov cfg document_id [] st = st"
| "add_chunks prov cfg document_id ((idx, content) # rest) st =
     (let embedding =
            (case generate_embedding prov cfg idx content of
               Inl e \<Rightarrow> None
             | Inr v \<Rightarrow> Some v);
          chunk = \<lparr>chunk_id = uuid4 st, chunk_document_id = document_id, chunk_index = idx,
                   chunk_content = content, chunk_embedding = embedding,
                   chunk_metadata = [(''chunk_size'', JInt (int (length content)))],
                   chunk_created_at = clock st\<rparr>
      in add_chunks prov cfg document_id rest
           (st\<lparr>document_chunks := document_chunks st @ [chunk]\<rparr>))"

text \<open>The \<^verbatim>\<open>Document(...)\<close> row that \<^verbatim>\<open>create_document\<close> builds.\<close>

definition new_document :: "db_state \<Rightarrow> document_create \<Rightarrow> document" where
  "new_document st document_data =
     \<lparr>doc_id = uuid4 st, doc_user_id = dc_user_id document_data,
      doc_title = dc_title document_data, doc_content = dc_content document_data,
      doc_file_path = None, doc_mime_type = dc_mime_type document_data,
      doc_size_bytes = utf8_len (dc_content document_data),
      doc_metadata = dc_metadata document_data,
      doc_created_at = clock st, doc_updated_at = clock st\<rparr>"

text \<open>
  \<^verbatim>\<open>create_document\<close>. The document row is flushed before the content is chunked; the
  chunk rows are flushed by the commit, which is outside the \<^verbatim>\<open>try\<close> of the loop, so a row
  that a column rejects makes the call raise. The result is the response and the
  committed state; \<open>None\<close> when the chunker does not return.
\<close>

definition create_document ::
  "provider \<Rightarrow> settings \<Rightarrow> db_state \<Rightarrow> document_create \<Rightarrow> int \<Rightarrow> int
     \<Rightarrow> (py_error + document \<times> db_state) option" where
  "create_document prov cfg st document_data chunk_size chunk_overlap =
     (let document = new_document st document_data;
          st1 = st\<lparr>documents := documents st @ [document]\<rparr>
      in if \<not> document_row_ok st document
         then Some (Inl (StorageError ''flush of documents row rejected''))
         else
           (case chunk_text (dc_content document_data) chunk_size chunk_overlap of
              None \<Rightarrow> None
            | Some chunks \<Rightarrow>
                (let st2 = add_chunks prov cfg (doc_id document) (enumerate 0 chunks) st1
                 in if list_all chunk_row_ok (added_chunks st1 st2)
                    then Some (Inr (document, st2))
                    else Some (Inl (StorageError ''flush of document_chunks row rejected'')))))"

text \<open>
  \<^verbatim>\<open>_rechunk_document\<close>. Its first statement executes a \<^verbatim>\<open>select\<close> of the document's chunks
  and drops the result; a query leaves the state as it is.
\<close>

definition select_document_chunks :: "db_state \<Rightarrow> uuid \<Rightarrow> document_chunk list" where
  "select_document_chunks st document_id =
     filter (\<lambda>c. chunk_document_id c = document_id) (document_chunks st)"

definition rechunk_document ::
  "provider \<Rightarrow> settings \<Rightarrow> document \<Rightarrow> db_state \<Rightarrow> db_state option" where
  "rechunk_document prov cfg document st =
     (let selected = select_document_chunks st (doc_id document) in
      case chunk_text (doc_content document) 1000 200 of
        None \<Rightarrow> None
      | Some chunks \<Rightarrow> Some (add_chunks prov cfg (doc_id document) (enumerate 0 chunks) st))"

definition store_document :: "document \<Rightarrow> db_state \<Rightarrow> db_state" where
  "store_document document st =
     st\<lparr>documents := map (\<lambda>d. if doc_id d = doc_id document then document else d) (documents st)\<rparr>"

text \<open>
  \<^verbatim>\<open>update_document\<close>. The session does not autoflush, so the changed document row and the
  new chunk rows are flushed by the commit at the end.
\<close>

definition update_document ::
  "provider \<Rightarrow> settings \<Rightarrow> db_state \<Rightarrow> uuid \<Rightarrow> uuid \<Rightarrow> document_update
     \<Rightarrow> (py_error + document \<times> db_state) option" where
  "update_document prov cfg st document_id user_id document_data =
     (case find (\<lambda>d. doc_id d = document_id \<and> doc_user_id d = user_id) (documents st) of
        None \<Rightarrow> Some (Inl (ValueError ''Document not found''))
      | Some document \<Rightarrow>
          let d1 = (case du_title document_data of
                      None \<Rightarrow> document
                    | Some t \<Rightarrow> document\<lparr>doc_title := t\<rparr>);
              d2 = (case du_content document_data of
                      None \<Rightarrow> d1
                    | Some c \<Rightarrow> d1\<lparr>doc_content := c, doc_size_bytes := utf8_len c\<rparr>);
              rechunked = (case du_content document_data of
                             None \<Rightarrow> Some st
                           | Some c \<Rightarrow> rechunk_document prov cfg d2 st)
          in (case rechunked of
                None \<Rightarrow> None
              | Some st2 \<Rightarrow>
                  (let d3 = (case du_metadata document_data of
                               None \<Rightarrow> d2
                             | Some m \<Rightarrow> d2\<lparr>doc_metadata := m\<rparr>);
                       d4 = d3\<lparr>doc_updated_at := clock st\<rparr>
                   in if document_row_ok st d4 \<and> list_all chunk_row_ok (added_chunks st st2)
                      then Some (Inr (d4, store_document d4 st2))
                      else Some (Inl (StorageError ''flush rejected'')))))"

section \<open>Memory store (backend/memory/service.py)\<close>

record memory_search_request =
  sr_query :: string
  sr_memory_type :: "string option"
  sr_chat_id :: "uuid option"
  sr_limit :: int
  sr_min_score :: real

text \<open>
  The query of \<^verbatim>\<open>search_memories\<close> is executed by the storage engine, which is not part of
  the repository. Two things the engine decides are parameters of the model:
  \<^item> \<open>distance\<close>, the operator \<^verbatim>\<open><=>\<close>: for two vectors it raises or returns a value of the
    engine's floating-point type \<open>'d\<close>, which the engine sorts in a linear order;
  \<^item> \<open>scan\<close>, the order in which the engine's plan delivers the rows that pass the
    \<^verbatim>\<open>WHERE\<close> clause (a permutation of them); rows with equal sort keys leave the sort in
    that order, so that every order of ties that SQL allows is the result for some \<open>scan\<close>.
  The operator is strict: on a null embedding it is not evaluated and the distance is
  null. \<^verbatim>\<open>ORDER BY ... ASC\<close> puts nulls last.
\<close>

definition row_distance ::
  "(embedding \<Rightarrow> embedding \<Rightarrow> py_error + 'd) \<Rightarrow> embedding \<Rightarrow> memory \<Rightarrow> py_error + 'd option" where
  "row_distance distance q m =
     (case mem_embedding m of
        None \<Rightarrow> Inr None
      | Some e \<Rightarrow> map_sum id Some (distance e q))"

fun eval_distances ::
  "(embedding \<Rightarrow> embedding \<Rightarrow> py_error + 'd) \<Rightarrow> embedding \<Rightarrow> memory list
     \<Rightarrow> py_error + (memory \<times> 'd option) list" where
  "eval_distances distance q [] = Inr []"
| "eval_distances distance q (m # ms) =
     (case row_distance distance q m of
        Inl e \<Rightarrow> Inl e
      | Inr d \<Rightarrow>
          (case eval_distances distance q ms of
             Inl e \<Rightarrow> Inl e
           | Inr keyed \<Rightarrow> Inr ((m, d) # keyed)))"

definition nulls_last :: "'d option \<Rightarrow> bool \<times> 'd option" where
  "nulls_last d = (d = None, d)"

text \<open>
  \<^verbatim>\<open>search_memories\<close>. Only the embedding request is inside \<^verbatim>\<open>try\<close>; an exception of the
  query propagates.
\<close>

definition search_memories ::
  "(embedding \<Rightarrow> embedding \<Rightarrow> py_error + 'd::linorder) \<Rightarrow> (memory list \<Rightarrow> memory list)
     \<Rightarrow> provider \<Rightarrow> settings \<Rightarrow> db_state \<Rightarrow> uuid \<Rightarrow> memory_search_request
     \<Rightarrow> py_error + memory list" where
  "search_memories distance scan prov cfg st user_id search_request =
     (case generate_embedding prov cfg 0 (sr_query search_request) of
        Inl e \<Rightarrow> Inr []
      | Inr query_embedding \<Rightarrow>
          let q0 = filter (\<lambda>m. mem_user_id m = user_id) (memories st);
              q1 = (if truthy (sr_memory_type search_request)
                    then filter (\<lambda>m. Some (mem_memory_type m) = sr_memory_type search_request) q0
                    else q0);
              q2 = (case sr_chat_id search_request of
                      None \<Rightarrow> q1
                    | Some c \<Rightarrow> filter (\<lambda>m. mem_chat_id m = Some c) q1)
          in (case eval_distances distance query_embedding (scan q2) of
                Inl e \<Rightarrow> Inl e
              | Inr keyed \<Rightarrow>
                  Inr (map fst (take (nat (sr_limit search_request))
                                  (sort_key (\<lambda>p. nulls_last (snd p)) keyed)))))"

text \<open>\<^verbatim>\<open>"\n".join(parts)\<close>.\<close>

fun join_lines :: "string list \<Rightarrow> string" where
  "join_lines [] = []"
| "join_lines [p] = p"
| "join_lines (p # ps) = p @ ''\<newline>'' @ join_lines ps"

definition get_relevant_memories_for_query ::
  "(embedding \<Rightarrow> embedding \<Rightarrow> py_error + 'd::linorder) \<Rightarrow> (memory list \<Rightarrow> memory list)
     \<Rightarrow> provider \<Rightarrow> settings \<Rightarrow> db_state \<Rightarrow> uuid \<Rightarrow> string \<Rightarrow> uuid option
     \<Rightarrow> py_error + string" where
  "get_relevant_memories_for_query distance scan prov cfg st user_id query chat_id =
     (let search_request = \<lparr>sr_query = query, sr_memory_type = None, sr_chat_id = chat_id,
                            sr_limit = 5, sr_min_score = 0\<rparr>
      in case search_memories distance scan prov cfg st user_id search_request of
           Inl e \<Rightarrow> Inl e
         | Inr found \<Rightarrow>
             Inr (if found = [] then []
                  else join_lines
                         (map (\<lambda>m. ''- '' @ mem_content m @ '' (type: '' @ mem_memory_type m @ '')'')
                            found)))"

text \<open>
  The cosine distance of the vector extension, read over the reals: vectors of different
  dimensions are an error, a zero vector gives NaN, the cosine is kept in \<open>[-1, 1]\<close>. A
  floating-point value in the engine's sort order is a pair: \<open>(False, x)\<close> is the number
  \<open>x\<close>, \<open>(True, 0)\<close> is NaN, which sorts after every number. It instantiates \<open>distance\<close> at
  vectors with components 0, 1 and -1, where floating-point arithmetic is exact.
\<close>

type_synonym float8 = "bool \<times> real"

definition cosine_distance :: "embedding \<Rightarrow> embedding \<Rightarrow> py_error + float8" where
  "cosine_distance a b =
     (if length a \<noteq> length b then Inl (StorageError ''different vector dimensions'')
      else
        let dot = sum_list (map (\<lambda>(x, y). x * y) (zip a b));
            norma = sum_list (map (\<lambda>x. x * x) a);
            normb = sum_list (map (\<lambda>y. y * y) b)
        in if norma * normb = 0 then Inr (True, 0)
           else Inr (False, 1 - max (- 1) (min 1 (dot / sqrt (norma * normb)))))"

section \<open>Context assembly (backend/chat/service.py, backend/api/main.py)\<close>

record chat_completion_request =
  req_chat_id :: "uuid option"
  req_model :: string
  req_messages :: "message list"
  req_temperature :: real
  req_max_tokens :: int
  req_stream :: bool
  req_use_web_grounding :: bool
  req_use_extended_thinking :: bool
  req_use_rag :: bool
  req_system_prompt :: "string option"

text \<open>
  The first statements of \<^verbatim>\<open>ChatService.chat_completion\<close>: the base prompt, then one
  conditional append per context source.
\<close>

definition build_system_prompt ::
  "string option \<Rightarrow> string option \<Rightarrow> string option \<Rightarrow> string option \<Rightarrow> string" where
  "build_system_prompt base memory_context rag_context web_context =
     (let p0 = (if truthy base then the base else []);
          p1 = (if truthy memory_context
                then p0 @ ''\<newline>\<newline>## User Memory Context\<newline>'' @ the memory_context else p0);
          p2 = (if truthy rag_context
                then p1 @ ''\<newline>\<newline>## Retrieved Documents\<newline>'' @ the rag_context else p1);
          p3 = (if truthy web_context
                then p2 @ ''\<newline>\<newline>## Web Search Results\<newline>'' @ the web_context else p2)
      in p3)"

text \<open>
  \<^verbatim>\<open>ChatService.chat_completion\<close> up to the dispatch: the prompt is handed to the client,
  \<^verbatim>\<open>None\<close> in place of an empty one.
\<close>

definition service_chat_completion ::
  "ai_client \<Rightarrow> provider \<Rightarrow> chat_completion_request \<Rightarrow> string option \<Rightarrow> string option
     \<Rightarrow> string option \<Rightarrow> effect list \<times> (py_error + completion)" where
  "service_chat_completion self prov request memory_context rag_context web_context =
     (let system_prompt = build_system_prompt (req_system_prompt request)
                            memory_context rag_context web_context
      in chat_completion self prov (req_model request) (req_messages request)
           \<lparr>temperature = req_temperature request, max_tokens = req_max_tokens request\<rparr>
           (req_stream request)
           (if system_prompt \<noteq> [] then Some system_prompt else None)
           (req_use_extended_thinking request))"

text \<open>
  The route \<^verbatim>\<open>POST /chat/completions\<close>: the three contexts as the route collects them, in
  its order (documents, web, memory), each awaited before the next is requested, with
  the effects of the fetches that were run. The document and web services are given by
  what they do and return for the query. The memory fetch requests the embedding of the
  query once.
\<close>

definition last_message :: "chat_completion_request \<Rightarrow> string" where
  "last_message request =
     (if req_messages request \<noteq> [] then msg_content (last (req_messages request)) else [])"

definition route_contexts ::
  "(embedding \<Rightarrow> embedding \<Rightarrow> py_error + 'd::linorder) \<Rightarrow> (memory list \<Rightarrow> memory list)
     \<Rightarrow> provider \<Rightarrow> settings \<Rightarrow> db_state \<Rightarrow> uuid \<Rightarrow> chat_completion_request
     \<Rightarrow> (string \<Rightarrow> effect list \<times> (py_error + string))
     \<Rightarrow> (string \<Rightarrow> effect list \<times> (py_error + string))
     \<Rightarrow> effect list \<times> (py_error + string option \<times> string option \<times> string option)" where
  "route_contexts distance scan prov cfg st user_id request get_rag_context get_grounding_context =
     (let rag = (if req_use_rag request
                 then apsnd (map_sum id Some) (get_rag_context (last_message request))
                 else ([], Inr None))
      in case snd rag of
           Inl e \<Rightarrow> (fst rag, Inl e)
         | Inr rag_context \<Rightarrow>
             (let web = (if req_use_web_grounding request
                         then apsnd (map_sum id Some) (get_grounding_context (last_message request))
                         else ([], Inr None))
              in case snd web of
                   Inl e \<Rightarrow> (fst rag @ fst web, Inl e)
                 | Inr web_context \<Rightarrow>
                     (case get_relevant_memories_for_query distance scan prov cfg st user_id
                             (last_message request) (req_chat_id request) of
                        Inl e \<Rightarrow> (fst rag @ fst web @ generate_embedding_effects, Inl e)
                      | Inr memory_context \<Rightarrow>
                          (fst rag @ fst web @ generate_embedding_effects,
                           Inr (Some memory_context, rag_context, web_context)))))"


text \<open>
  The route as a whole, up to the answer of the dispatch. \<^verbatim>\<open>ChatService(db)\<close>,
  \<^verbatim>\<open>MemoryService(db)\<close> and \<^verbatim>\<open>RAGService(db)\<close> each run \<^verbatim>\<open>AIClient()\<close>; the contexts are
  collected; then \<^verbatim>\<open>ChatService.chat_completion\<close> dispatches.
\<close>

definition completion_route ::
  "(embedding \<Rightarrow> embedding \<Rightarrow> py_error + 'd::linorder) \<Rightarrow> (memory list \<Rightarrow> memory list)
     \<Rightarrow> provider \<Rightarrow> settings \<Rightarrow> db_state \<Rightarrow> uuid \<Rightarrow> chat_completion_request
     \<Rightarrow> (string \<Rightarrow> effect list \<times> (py_error + string))
     \<Rightarrow> (string \<Rightarrow> effect list \<times> (py_error + string))
     \<Rightarrow> effect list \<times> (py_error + completion)" where
  "completion_route distance scan prov cfg st user_id request get_rag_context
       get_grounding_context =
     (let chat_service = AIClient_init cfg;
          memory_service = AIClient_init cfg;
          rag_service = AIClient_init cfg;
          constructed = fst chat_service @ fst memory_service @ fst rag_service;
          contexts = route_contexts distance scan prov cfg st user_id request get_rag_context
                       get_grounding_context
      in case snd contexts of
           Inl e \<Rightarrow> (constructed @ fst contexts, Inl e)
         | Inr (memory_context, rag_context, web_context) \<Rightarrow>
             (let result = service_chat_completion (snd chat_service) prov request
                             memory_context rag_context web_context
              in (constructed @ fst contexts @ fst result, snd result)))"



section \<open>The orderings and outcomes the specification speaks of\<close>

text \<open>
  The place of a row in the order of the query: its distance, nulls last. Similarity is
  one minus the distance, so ascending distance is descending similarity.
\<close>

definition sort_position ::
  "(embedding \<Rightarrow> embedding \<Rightarrow> py_error + 'd) \<Rightarrow> embedding \<Rightarrow> memory \<Rightarrow> bool \<times> 'd option" where
  "sort_position distance q m =
     (case row_distance distance q m of Inl e \<Rightarrow> (True, None) | Inr d \<Rightarrow> nulls_last d)"

text \<open>
  "Ties broken by descending importance, then descending recency": \<open>a\<close> may stand before
  \<open>b\<close> when it is nearer, or equally near and more important, or equally near and
  important and not older.
\<close>

definition spec_precedes ::
  "(embedding \<Rightarrow> embedding \<Rightarrow> py_error + 'd::linorder) \<Rightarrow> embedding \<Rightarrow> memory \<Rightarrow> memory \<Rightarrow> bool" where
  "spec_precedes distance q a b =
     (sort_position distance q a < sort_position distance q b
      \<or> (sort_position distance q a = sort_position distance q b
          \<and> (mem_importance_score b < mem_importance_score a
              \<or> (mem_importance_score a = mem_importance_score b
                  \<and> mem_created_at b \<le> mem_created_at a))))"

text \<open>The embedding a chunk is stored with: the provider's vector, or null on any exception.\<close>

definition embedding_or_none :: "provider \<Rightarrow> settings \<Rightarrow> nat \<times> string \<Rightarrow> embedding option" where
  "embedding_or_none prov cfg ic =
     (case generate_embedding prov cfg (fst ic) (snd ic) of Inl e \<Rightarrow> None | Inr v \<Rightarrow> Some v)"

section \<open>Concrete configurations, providers and states\<close>

text \<open>
  The defaults of \<^verbatim>\<open>backend/shared/config.py\<close> with no credentials set, and the same with
  an Anthropic key.
\<close>

definition default_settings :: settings where
  "default_settings =
     \<lparr>ANTHROPIC_API_KEY = None, GOOGLE_AI_API_KEY = None, VERTEX_AI_PROJECT = None,
      VERTEX_AI_LOCATION = ''us-central1'', EMBEDDING_MODEL = ''text-embedding-004''\<rparr>"

definition keyed_settings :: settings where
  "keyed_settings = default_settings\<lparr>ANTHROPIC_API_KEY := Some ''sk-test''\<rparr>"

text \<open>
  A provider that fails every request; one whose second embedding request fails and
  whose other embeddings have 1536 components; one like it whose vectors have a single
  component; one that embeds every text as the vector of 1536 ones.
\<close>

definition offline_provider :: provider where
  "offline_provider =
     \<lparr>messages_create = (\<lambda>kwargs. Inl (ProviderError ''offline'')),
      messages_stream = (\<lambda>kwargs. Inl (ProviderError ''offline'')),
      generate_content = (\<lambda>name sys msgs samp. Inl (ProviderError ''offline'')),
      generate_content_stream = (\<lambda>name msgs samp. Inl (ProviderError ''offline'')),
      chat_send_message = (\<lambda>name history m. Inl (ProviderError ''offline'')),
      get_embeddings = (\<lambda>name n t. Inl (ProviderError ''offline''))\<rparr>"

definition flaky_provider :: provider where
  "flaky_provider = offline_provider\<lparr>get_embeddings :=
      (\<lambda>name n t. if n = 1 then Inl (ProviderError ''quota'') else Inr (replicate 1536 0.5))\<rparr>"

definition short_vector_provider :: provider where
  "short_vector_provider = offline_provider\<lparr>get_embeddings :=
      (\<lambda>name n t. if n = 1 then Inl (ProviderError ''quota'') else Inr [0.5])\<rparr>"

definition ones_provider :: provider where
  "ones_provider = offline_provider\<lparr>get_embeddings := (\<lambda>name n t. Inr (replicate 1536 1))\<rparr>"

text \<open>A database with the user 7 and no other row.\<close>

definition fresh_db :: db_state where
  "fresh_db = \<lparr>users = [7], documents = [], document_chunks = [], memories = [], clock = 0\<rparr>"

text \<open>
  The state after user 7 has ingested the document \<^verbatim>\<open>"old"\<close> into that database while
  the embedding provider was offline.
\<close>

definition stored_old :: db_state where
  "stored_old =
     \<lparr>users = [7],
      documents = [\<lparr>doc_id = 1, doc_user_id = 7, doc_title = ''t'', doc_content = ''old'',
                     doc_file_path = None, doc_mime_type = None, doc_size_bytes = 3,
                     doc_metadata = [], doc_created_at = 0, doc_updated_at = 0\<rparr>],
      document_chunks = [\<lparr>chunk_id = 2, chunk_document_id = 1, chunk_index = 0,
                           chunk_content = ''old'', chunk_embedding = None,
                           chunk_metadata = [(''chunk_size'', JInt 3)], chunk_created_at = 0\<rparr>],
      memories = [], clock = 0\<rparr>"

text \<open>
  Memories of user 7 whose embedding has 1536 equal components, a search for \<^verbatim>\<open>"tea"\<close>,
  and a completion request asking about it.
\<close>

definition note_memory :: "uuid \<Rightarrow> real \<Rightarrow> nat \<Rightarrow> real \<Rightarrow> memory" where
  "note_memory i importance created x =
     \<lparr>mem_id = i, mem_user_id = 7, mem_chat_id = None, mem_memory_type = ''preference'',
      mem_content = ''likes tea'', mem_embedding = Some (replicate 1536 x),
      mem_importance_score = importance,
      mem_metadata = [], mem_created_at = created, mem_updated_at = created\<rparr>"

definition tea_db :: "memory list \<Rightarrow> db_state" where
  "tea_db ms = \<lparr>users = [7], documents = [], document_chunks = [], memories = ms, clock = 3\<rparr>"

definition tea_request :: memory_search_request where
  "tea_request = \<lparr>sr_query = ''tea'', sr_memory_type = None, sr_chat_id = None,
                   sr_limit = 10, sr_min_score = 0\<rparr>"

definition tea_chat_request :: chat_completion_request where
  "tea_chat_request =
     \<lparr>req_chat_id = None, req_model = ''claude-sonnet-4.5'',
      req_messages = [\<lparr>msg_role = ''user'', msg_content = ''tea''\<rparr>],
      req_temperature = 0.7, req_max_tokens = 4000, req_stream = False,
      req_use_web_grounding = False, req_use_extended_thinking = False, req_use_rag = False,
      req_system_prompt = Some ''Be brief.''\<rparr>"

section \<open>Properties of the chunker\<close>

text \<open>A loop whose step is not positive returns only if it never enters the body.\<close>

lemma chunk_loop_stuck:
  assumes r: "chunk_loop t chunk_size overlap start chunks = Some r"
  shows "\<not> (chunk_size \<le> overlap \<and> start < int (length t))"
proof (rule chunk_loop.raw_induct
    [where P = "\<lambda>t cs ov st ch r. \<not> (cs \<le> ov \<and> st < int (length t))", OF _ r])
  fix f :: "'a list \<Rightarrow> int \<Rightarrow> int \<Rightarrow> int \<Rightarrow> 'a list list \<Rightarrow> 'a list list option"
  fix tx cs ov st ch y
  assume IH: "\<And>tx cs ov st ch y. f tx cs ov st ch = Some y \<Longrightarrow>
                 \<not> (cs \<le> ov \<and> st < int (length tx))"
  assume body: "(if st < int (length tx)
      then f tx cs ov (st + cs - ov) (ch @ [py_slice tx st (st + cs)])
      else Some ch) = Some y"
  show "\<not> (cs \<le> ov \<and> st < int (length tx))"
  proof
    assume a: "cs \<le> ov \<and> st < int (length tx)"
    with body have "f tx cs ov (st + cs - ov) (ch @ [py_slice tx st (st + cs)]) = Some y"
      by simp
    from IH[OF this] a show False by simp
  qed
qed

lemma chunk_text_diverges:
  assumes "chunk_size \<le> overlap" and "t \<noteq> []"
  shows "chunk_text t chunk_size overlap = None"
proof (cases "chunk_text t chunk_size overlap")
  case None
  then show ?thesis .
next
  case (Some r)
  then have "chunk_loop t chunk_size overlap 0 [] = Some r"
    by (simp add: chunk_text_def)
  from chunk_loop_stuck[OF this] assms show ?thesis by simp
qed

lemma chunk_text_empty: "chunk_text [] chunk_size overlap = Some []"
  unfolding chunk_text_def by (subst chunk_loop.simps) simp

text \<open>
  C1. With \<open>overlap \<ge> size\<close> the code raises nothing: on the one-character text
  \<^verbatim>\<open>"a"\<close> with \<open>chunk_size = 1\<close> and \<open>overlap = 1\<close> the loop variable stays at 0 and
  \<^verbatim>\<open>chunk_text\<close> never returns (no error, no chunk list).
\<close>

theorem chunk_text_overlap_eq_size_never_returns:
  "chunk_text ''a'' 1 1 = None"
  by (rule chunk_text_diverges) simp_all

text \<open>The four windows of a text of 2500 characters under size 1000 and overlap 200.\<close>

lemma chunk_text_2500:
  assumes "length t = 2500"
  shows "chunk_text t 1000 200 =
     Some [py_slice t 0 1000, py_slice t 800 1800, py_slice t 1600 2600, py_slice t 2400 3400]"
  using assms by (simp add: chunk_text_def chunk_loop.simps)

lemma py_slice_2500_lengths:
  assumes "length t = 2500"
  shows "map length [py_slice t 0 1000, py_slice t 800 1800, py_slice t 1600 2600,
           py_slice t 2400 3400] = [1000, 1000, 900, 100]"
  using assms by (simp add: py_slice_def py_clamp_def)

text \<open>
  C3 (as amended). A text of length 2500 chunked with \<open>chunk_size = 1000\<close> and
  \<open>chunk_overlap = 200\<close> gives exactly four chunks, the slices starting at 0, 800, 1600 and
  2400, of lengths 1000, 1000, 900 and 100.
\<close>

theorem chunk_text_2500_boundaries:
  "length t = 2500 \<Longrightarrow>
     chunk_text t 1000 200 =
       Some [py_slice t 0 1000, py_slice t 800 1800, py_slice t 1600 2600, py_slice t 2400 3400]
     \<and> map length (the (chunk_text t 1000 200)) = [1000, 1000, 900, 100]"
  using chunk_text_2500[of t] py_slice_2500_lengths[of t] by simp

theorem chunk_text_2500_boundaries_witness:
  "length (replicate 2500 (CHR ''x'')) = 2500
   \<and> map length (the (chunk_text (replicate 2500 (CHR ''x'')) 1000 200)) = [1000, 1000, 900, 100]"
proof -
  have len: "length (replicate 2500 (CHR ''x'')) = 2500" by simp
  from chunk_text_2500_boundaries[OF len]
  have "map length (the (chunk_text (replicate 2500 (CHR ''x'')) 1000 200)) = [1000, 1000, 900, 100]"
    by (rule conjunct2)
  with len show ?thesis by (rule conjI)
qed

text \<open>
  C3 as stated fails: the lengths are not 1000, 1000, 1000, 300.
\<close>

theorem chunk_text_2500_lengths_counterexample:
  "map length (the (chunk_text (replicate 2500 (CHR ''x'')) 1000 200)) \<noteq> [1000, 1000, 1000, 300]"
proof -
  have len: "length (replicate 2500 (CHR ''x'')) = 2500" by simp
  have "map length (the (chunk_text (replicate 2500 (CHR ''x'')) 1000 200)) = [1000, 1000, 900, 100]"
    by (simp only: chunk_text_2500[OF len] option.sel py_slice_2500_lengths[OF len])
  then show ?thesis by simp
qed

text \<open>Dropping the overlap from a window and appending the rest of the text.\<close>

lemma slice_step:
  fixes s k v :: nat
  assumes "v < k"
  shows "drop v (take (min (s + k) (length t) - s) (drop s t)) @ drop (s + k) t = drop (s + v) t"
proof (cases "s + k \<le> length t")
  case True
  have tl: "drop (s + k) t = drop (k - v) (drop (s + v) t)"
    using assms by (simp add: ac_simps)
  have hd: "drop v (take (min (s + k) (length t) - s) (drop s t)) = take (k - v) (drop (s + v) t)"
    using True by (simp add: min_def drop_take ac_simps)
  show ?thesis
    by (simp only: tl hd append_take_drop_id)
next
  case False
  then show ?thesis by (simp add: min_def ac_simps)
qed

lemma py_slice_nonneg:
  assumes "0 \<le> start" "0 \<le> stop" "start < int (length t)"
  shows "py_slice t start stop = take (min (nat stop) (length t) - nat start) (drop (nat start) t)"
  using assms by (simp add: py_slice_def py_clamp_def min_def Let_def)

text \<open>
  The loop invariant: started at a non-negative position with a positive step, the loop
  returns, and what it appends, with the overlap dropped, is the text from
  \<open>start + overlap\<close> on.
\<close>

lemma chunk_loop_from:
  assumes "0 \<le> overlap" "overlap < chunk_size" "0 \<le> start"
  shows "\<exists>cs. chunk_loop t chunk_size overlap start acc = Some (acc @ cs) \<and>
              concat (map (drop (nat overlap)) cs) = drop (nat (start + overlap)) t"
  using assms(3)
proof (induction "nat (int (length t) - start)" arbitrary: start acc rule: less_induct)
  case less
  show ?case
  proof (cases "start < int (length t)")
    case False
    then have "chunk_loop t chunk_size overlap start acc = Some (acc @ [])"
      by (subst chunk_loop.simps) simp
    moreover have "drop (nat (start + overlap)) t = []"
      using False assms(1) by simp
    ultimately show ?thesis by fastforce
  next
    case True
    let ?c = "py_slice t start (start + chunk_size)"
    let ?s' = "start + chunk_size - overlap"
    have s': "0 \<le> ?s'" "nat (int (length t) - ?s') < nat (int (length t) - start)"
      using assms True less.prems by auto
    from less.hyps[OF s'(2) s'(1), of "acc @ [?c]"]
    obtain cs where cs: "chunk_loop t chunk_size overlap ?s' (acc @ [?c]) = Some ((acc @ [?c]) @ cs)"
      "concat (map (drop (nat overlap)) cs) = drop (nat (?s' + overlap)) t" by blast
    have unf: "chunk_loop t chunk_size overlap start acc = Some (acc @ (?c # cs))"
      using True cs(1) by (subst chunk_loop.simps) simp
    have c_eq: "?c = take (min (nat start + nat chunk_size) (length t) - nat start) (drop (nat start) t)"
      using py_slice_nonneg[of start "start + chunk_size" t] less.prems assms True
      by (simp add: nat_add_distrib)
    have "drop (nat overlap) ?c @ drop (nat start + nat chunk_size) t = drop (nat start + nat overlap) t"
      unfolding c_eq using assms by (intro slice_step) simp
    moreover have "nat (?s' + overlap) = nat start + nat chunk_size"
      using less.prems assms by simp
    moreover have "nat (start + overlap) = nat start + nat overlap"
      using less.prems assms by simp
    ultimately have "concat (map (drop (nat overlap)) (?c # cs)) = drop (nat (start + overlap)) t"
      using cs(2) by simp
    with unf show ?thesis by blast
  qed
qed

text \<open>
  C4 (as amended). For every text and every configuration with
  \<open>0 \<le> overlap < size\<close>, \<^verbatim>\<open>chunk_text\<close> returns, and concatenating its chunks with the
  leading \<open>overlap\<close> characters dropped from every chunk after the first gives back the
  text.
\<close>

theorem chunk_text_reconstruct:
  assumes "0 \<le> overlap" "overlap < chunk_size"
  shows "\<exists>chunks. chunk_text t chunk_size overlap = Some chunks \<and> reconstruct overlap chunks = t"
proof (cases "t = []")
  case True
  then show ?thesis by (simp add: chunk_text_empty reconstruct_def)
next
  case False
  let ?c = "py_slice t 0 chunk_size"
  let ?s' = "chunk_size - overlap"
  have "0 \<le> ?s'" using assms by simp
  from chunk_loop_from[OF assms this, of t "[?c]"]
  obtain cs where cs: "chunk_loop t chunk_size overlap ?s' [?c] = Some ([?c] @ cs)"
      "concat (map (drop (nat overlap)) cs) = drop (nat (?s' + overlap)) t" by blast
  have "chunk_text t chunk_size overlap = Some (?c # cs)"
    unfolding chunk_text_def using False cs(1) by (subst chunk_loop.simps) simp
  moreover have "?c = take (nat chunk_size) t"
    using assms False by (simp add: py_slice_def py_clamp_def min_def)
  ultimately show ?thesis using cs(2) by (simp add: reconstruct_def)
qed

theorem chunk_text_reconstruct_witness:
  "(0::int) \<le> 1 \<and> (1::int) < 3 \<and> chunk_text ''abcdefg'' 3 1 = Some [''abc'', ''cde'', ''efg'', ''g'']
   \<and> reconstruct 1 [''abc'', ''cde'', ''efg'', ''g''] = ''abcdefg''"
proof -
  have ch: "chunk_text ''abcdefg'' 3 1 = Some [''abc'', ''cde'', ''efg'', ''g'']"
    by (simp add: chunk_text_def chunk_loop.simps py_slice_def py_clamp_def)
  have "\<exists>chunks. chunk_text ''abcdefg'' 3 1 = Some chunks \<and> reconstruct 1 chunks = ''abcdefg''"
    by (rule chunk_text_reconstruct) simp_all
  with ch show ?thesis by simp
qed

text \<open>
  C4 as stated fails for a negative overlap, which is still strictly less than the size:
  the windows then skip characters of the text.
\<close>

theorem chunk_text_negative_overlap_counterexample:
  "(- 1 :: int) < 1 \<and> chunk_text ''ab'' 1 (- 1) = Some [''a'']
   \<and> reconstruct (- 1) [''a''] \<noteq> ''ab''"
  by (simp add: chunk_text_def chunk_loop.simps py_slice_def py_clamp_def reconstruct_def)

section \<open>Properties of the provider adapter layer\<close>

text \<open>The three shapes of a Gemini stream: failed at once, completed, or cut part-way.\<close>

lemma gemini_stream_shape:
  "(\<exists>e. gemini_stream prov name msgs gc sp = ([], Some e))
   \<or> (\<exists>texts. gemini_stream prov name msgs gc sp =
         (map Content texts @
            [Done \<lparr>dm_id = ''gemini-stream'', dm_model = None, dm_tokens_used = 0,
                   dm_finish_reason = ''stop''\<rparr>], None))
   \<or> (\<exists>texts e. gemini_stream prov name msgs gc sp = (map Content texts, Some e))"
proof (cases "generate_content_stream prov name msgs gc")
  case (Inl e)
  then show ?thesis by (simp add: gemini_stream_def)
next
  case (Inr r)
  obtain response failure where r: "r = (response, failure)" by (cases r)
  let ?texts = "map gc_text (filter (\<lambda>chunk. gc_text chunk \<noteq> []) response)"
  have m: "map (\<lambda>chunk. Content (gc_text chunk)) (filter (\<lambda>chunk. gc_text chunk \<noteq> []) response)
             = map Content ?texts" by simp
  show ?thesis
  proof (cases failure)
    case None
    with Inr r m have "gemini_stream prov name msgs gc sp =
         (map Content ?texts @
            [Done \<lparr>dm_id = ''gemini-stream'', dm_model = None, dm_tokens_used = 0,
                   dm_finish_reason = ''stop''\<rparr>], None)"
      by (simp add: gemini_stream_def)
    then show ?thesis by blast
  next
    case (Some e)
    with Inr r m have "gemini_stream prov name msgs gc sp = (map Content ?texts, Some e)"
      by (simp add: gemini_stream_def)
    then show ?thesis by blast
  qed
qed

lemma gemini_not_claude: "prefix ''gemini'' model \<Longrightarrow> \<not> prefix ''claude'' model"
  by (cases model) simp_all

text \<open>
  C10. For every streaming completion dispatched to the Gemini adapter, every terminal
  \<open>done\<close> event of the stream reports \<open>tokens_used = 0\<close>; when the provider's stream
  ends without an exception, the events are the content deltas followed by exactly one
  such \<open>done\<close> event, whatever the number of deltas and whatever token counts the
  provider attached to its pieces.
\<close>

theorem gemini_stream_done_tokens_zero:
  assumes "prefix ''gemini'' model"
  shows "\<exists>events failure.
           snd (chat_completion self prov model messages samp True system_prompt ext)
             = Inr (Streaming (events, failure))
           \<and> (\<forall>d. Done d \<in> set events \<longrightarrow> dm_tokens_used d = 0)
           \<and> (failure = None \<longrightarrow>
                (\<exists>texts d. events = map Content texts @ [Done d] \<and> dm_tokens_used d = 0))"
proof -
  let ?name = "dict_get [(''gemini-2.5-flash'', ''gemini-2.5-flash''),
                         (''gemini-2.5-pro'', ''gemini-2.5-pro'')] model model"
  let ?msgs = "map (\<lambda>msg. \<lparr>gm_role = (if msg_role msg = ''user'' then ''user'' else ''model''),
                         gm_text = msg_content msg\<rparr>) messages"
  have disp: "snd (chat_completion self prov model messages samp True system_prompt ext)
     = Inr (Streaming (gemini_stream prov ?name ?msgs samp system_prompt))"
    using assms gemini_not_claude[OF assms]
    by (simp add: chat_completion_def gemini_completion_def)
  from gemini_stream_shape[of prov ?name ?msgs samp system_prompt]
  show ?thesis
  proof (elim disjE exE)
    fix e assume "gemini_stream prov ?name ?msgs samp system_prompt = ([], Some e)"
    with disp show ?thesis by simp
  next
    fix texts
    assume "gemini_stream prov ?name ?msgs samp system_prompt =
         (map Content texts @
            [Done \<lparr>dm_id = ''gemini-stream'', dm_model = None, dm_tokens_used = 0,
                   dm_finish_reason = ''stop''\<rparr>], None)"
    with disp show ?thesis by auto
  next
    fix texts e
    assume "gemini_stream prov ?name ?msgs samp system_prompt = (map Content texts, Some e)"
    with disp show ?thesis by auto
  qed
qed

theorem gemini_stream_done_tokens_zero_witness:
  "prefix ''gemini'' ''gemini-2.5-pro''
   \<and> snd (chat_completion \<lparr>anthropic_client = False\<rparr>
        (offline_provider\<lparr>generate_content_stream :=
           (\<lambda>name msgs samp.
              Inr ([\<lparr>gc_text = ''Hel'', gc_total_token_count = None\<rparr>,
                    \<lparr>gc_text = '''', gc_total_token_count = None\<rparr>,
                    \<lparr>gc_text = ''lo'', gc_total_token_count = Some 42\<rparr>], None))\<rparr>)
        ''gemini-2.5-pro'' [\<lparr>msg_role = ''user'', msg_content = ''hi''\<rparr>]
        \<lparr>temperature = 0.7, max_tokens = 4000\<rparr> True None False)
     = Inr (Streaming
         ([Content ''Hel'', Content ''lo'',
           Done \<lparr>dm_id = ''gemini-stream'', dm_model = None, dm_tokens_used = 0,
                 dm_finish_reason = ''stop''\<rparr>], None))"
proof -
  have p: "prefix ''gemini'' ''gemini-2.5-pro''" by simp
  have "snd (chat_completion \<lparr>anthropic_client = False\<rparr>
        (offline_provider\<lparr>generate_content_stream :=
           (\<lambda>name msgs samp.
              Inr ([\<lparr>gc_text = ''Hel'', gc_total_token_count = None\<rparr>,
                    \<lparr>gc_text = '''', gc_total_token_count = None\<rparr>,
                    \<lparr>gc_text = ''lo'', gc_total_token_count = Some 42\<rparr>], None))\<rparr>)
        ''gemini-2.5-pro'' [\<lparr>msg_role = ''user'', msg_content = ''hi''\<rparr>]
        \<lparr>temperature = 0.7, max_tokens = 4000\<rparr> True None False)
     = Inr (Streaming
         ([Content ''Hel'', Content ''lo'',
           Done \<lparr>dm_id = ''gemini-stream'', dm_model = None, dm_tokens_used = 0,
                 dm_finish_reason = ''stop''\<rparr>], None))"
    by (simp add: chat_completion_def gemini_completion_def gemini_stream_def offline_provider_def
        dict_get_def)
  with p gemini_stream_done_tokens_zero[OF p] show ?thesis by blast
qed

section \<open>Properties of the document store\<close>

text \<open>A fresh identifier is the document id of no stored chunk.\<close>

lemma foldr_max_ge: "x \<in> set xs \<Longrightarrow> x \<le> foldr max xs (0::nat)"
  by (induction xs) auto

lemma uuid4_fresh: "uuid4 st \<notin> set (used_ids st)"
proof
  assume "uuid4 st \<in> set (used_ids st)"
  from foldr_max_ge[OF this] show False by (simp add: uuid4_def)
qed

lemma uuid4_no_chunk:
  "filter (\<lambda>c. chunk_document_id c = uuid4 st) (document_chunks st) = []"
proof -
  have "\<forall>c \<in> set (document_chunks st). chunk_document_id c \<noteq> uuid4 st"
  proof
    fix c assume "c \<in> set (document_chunks st)"
    then have "chunk_document_id c \<in> set (used_ids st)" by (simp add: used_ids_def)
    with uuid4_fresh[of st] show "chunk_document_id c \<noteq> uuid4 st" by metis
  qed
  then show ?thesis by (simp add: filter_empty_conv)
qed

text \<open>
  The loop appends one chunk per enumerated text, in order, with the document's id, the
  enumeration index, the text, and the provider's embedding or null.
\<close>

lemma add_chunks_appends:
  "\<exists>new. document_chunks (add_chunks prov cfg did ics st) = document_chunks st @ new
        \<and> map chunk_document_id new = map (\<lambda>ic. did) ics
        \<and> map chunk_index new = map fst ics
        \<and> map chunk_content new = map snd ics
        \<and> map chunk_embedding new = map (embedding_or_none prov cfg) ics
        \<and> documents (add_chunks prov cfg did ics st) = documents st"
proof (induction ics arbitrary: st)
  case Nil
  show ?case by simp
next
  case (Cons ic rest)
  obtain idx content where ic: "ic = (idx, content)" by (cases ic)
  let ?chunk = "\<lparr>chunk_id = uuid4 st, chunk_document_id = did, chunk_index = idx,
                   chunk_content = content,
                   chunk_embedding = embedding_or_none prov cfg (idx, content),
                   chunk_metadata = [(''chunk_size'', JInt (int (length content)))],
                   chunk_created_at = clock st\<rparr>"
  let ?st = "st\<lparr>document_chunks := document_chunks st @ [?chunk]\<rparr>"
  have step: "add_chunks prov cfg did (ic # rest) st = add_chunks prov cfg did rest ?st"
    by (simp add: ic embedding_or_none_def Let_def)
  from Cons.IH[of ?st] obtain new where
    new: "document_chunks (add_chunks prov cfg did rest ?st) = document_chunks ?st @ new"
      "map chunk_document_id new = map (\<lambda>ic. did) rest"
      "map chunk_index new = map fst rest"
      "map chunk_content new = map snd rest"
      "map chunk_embedding new = map (embedding_or_none prov cfg) rest"
      "documents (add_chunks prov cfg did rest ?st) = documents ?st"
    by blast
  have "document_chunks (add_chunks prov cfg did (ic # rest) st) = document_chunks st @ (?chunk # new)"
    by (simp add: step new(1))
  moreover have "map chunk_document_id (?chunk # new) = map (\<lambda>ic. did) (ic # rest)"
    by (simp add: new(2))
  moreover have "map chunk_index (?chunk # new) = map fst (ic # rest)"
    by (simp add: new(3) ic)
  moreover have "map chunk_content (?chunk # new) = map snd (ic # rest)"
    by (simp add: new(4) ic)
  moreover have "map chunk_embedding (?chunk # new) = map (embedding_or_none prov cfg) (ic # rest)"
    by (simp add: new(5) ic)
  moreover have "documents (add_chunks prov cfg did (ic # rest) st) = documents st"
    by (simp add: step new(6))
  ultimately show ?case by blast
qed

lemma filter_all_same:
  "map f xs = map (\<lambda>x. v) ys \<Longrightarrow> filter (\<lambda>c. f c = v) xs = xs"
proof -
  assume a: "map f xs = map (\<lambda>x. v) ys"
  have "\<forall>c \<in> set xs. f c = v"
  proof
    fix c assume "c \<in> set xs"
    then have "f c \<in> set (map f xs)" by simp
    with a show "f c = v" by auto
  qed
  then show ?thesis by (simp add: filter_id_conv)
qed

text \<open>
  What \<^verbatim>\<open>create_document\<close> commits when the document row is accepted, the chunker
  returns and every vector fits the column.
\<close>

lemma create_document_chunks:
  assumes ch: "chunk_text (dc_content dd) chunk_size chunk_overlap = Some chunks"
      and row: "document_row_ok st (new_document st dd)"
      and vec: "list_all (\<lambda>ic. vector_ok (embedding_or_none prov cfg ic)) (enumerate 0 chunks)"
  shows "\<exists>document st'.
           create_document prov cfg st dd chunk_size chunk_overlap = Some (Inr (document, st'))
         \<and> document \<in> set (documents st')
         \<and> doc_content document = dc_content dd
         \<and> map chunk_index (select_document_chunks st' (doc_id document)) = [0..<length chunks]
         \<and> map chunk_content (select_document_chunks st' (doc_id document)) = chunks
         \<and> map chunk_embedding (select_document_chunks st' (doc_id document))
             = map (embedding_or_none prov cfg) (enumerate 0 chunks)"
proof -
  let ?document = "new_document st dd"
  let ?st1 = "st\<lparr>documents := documents st @ [?document]\<rparr>"
  let ?st' = "add_chunks prov cfg (uuid4 st) (enumerate 0 chunks) ?st1"
  have did: "doc_id ?document = uuid4 st" by (simp add: new_document_def)
  from add_chunks_appends[of prov cfg "uuid4 st" "enumerate 0 chunks" ?st1]
  obtain new where
    new: "document_chunks ?st' = document_chunks ?st1 @ new"
      "map chunk_document_id new = map (\<lambda>ic. uuid4 st) (enumerate 0 chunks)"
      "map chunk_index new = map fst (enumerate 0 chunks)"
      "map chunk_content new = map snd (enumerate 0 chunks)"
      "map chunk_embedding new = map (embedding_or_none prov cfg) (enumerate 0 chunks)"
      "documents ?st' = documents ?st1"
    by blast
  have added: "added_chunks ?st1 ?st' = new"
    by (simp add: added_chunks_def new(1))
  have "list_all (\<lambda>e. vector_ok e) (map chunk_embedding new)"
    using vec by (simp add: new(5) list_all_iff)
  then have ok: "list_all chunk_row_ok new"
    by (simp add: chunk_row_ok_def list_all_iff)
  have res: "create_document prov cfg st dd chunk_size chunk_overlap = Some (Inr (?document, ?st'))"
    using row ok by (simp add: create_document_def ch Let_def did added)
  have sel: "select_document_chunks ?st' (uuid4 st) = new"
    using uuid4_no_chunk[of st] filter_all_same[OF new(2)]
    by (simp add: select_document_chunks_def new(1))
  have "?document \<in> set (documents ?st')" by (simp add: new(6))
  moreover have "doc_content ?document = dc_content dd" by (simp add: new_document_def)
  moreover have "map chunk_index (select_document_chunks ?st' (doc_id ?document)) = [0..<length chunks]"
    by (simp add: did sel new(3))
  moreover have "map chunk_content (select_document_chunks ?st' (doc_id ?document)) = chunks"
    by (simp add: did sel new(4))
  moreover have "map chunk_embedding (select_document_chunks ?st' (doc_id ?document))
             = map (embedding_or_none prov cfg) (enumerate 0 chunks)"
    by (simp add: did sel new(5))
  ultimately show ?thesis using res by (intro exI[of _ ?document] exI[of _ ?st']) simp
qed

text \<open>
  C7 (as amended). If the storage accepts the document row, the content chunks into three
  chunks, embedding generation raises for exactly one of them and every vector it
  returns has the 1536 components of the column, then \<^verbatim>\<open>create_document\<close> returns
  successfully; the document is stored, and its chunks in the committed state are the
  three chunks with indices 0, 1, 2, one with a null embedding and two with an embedding
  that the column holds.
\<close>

theorem create_document_one_embedding_failure:
  assumes ch: "chunk_text (dc_content dd) chunk_size chunk_overlap = Some [c0, c1, c2]"
      and one: "length (filter (\<lambda>ic. isl (generate_embedding prov cfg (fst ic) (snd ic)))
                  (enumerate 0 [c0, c1, c2])) = 1"
      and valid: "\<forall>ic \<in> set (enumerate 0 [c0, c1, c2]). \<forall>v.
                    generate_embedding prov cfg (fst ic) (snd ic) = Inr v \<longrightarrow> length v = 1536"
      and row: "document_row_ok st (new_document st dd)"
  shows "\<exists>document st'.
           create_document prov cfg st dd chunk_size chunk_overlap = Some (Inr (document, st'))
         \<and> document \<in> set (documents st')
         \<and> map chunk_index (select_document_chunks st' (doc_id document)) = [0, 1, 2]
         \<and> map chunk_content (select_document_chunks st' (doc_id document)) = [c0, c1, c2]
         \<and> length (filter (\<lambda>c. chunk_embedding c = None)
              (select_document_chunks st' (doc_id document))) = 1
         \<and> length (filter (\<lambda>c. chunk_embedding c \<noteq> None)
              (select_document_chunks st' (doc_id document))) = 2
         \<and> list_all (\<lambda>c. vector_ok (chunk_embedding c))
              (select_document_chunks st' (doc_id document))"
proof -
  let ?ics = "enumerate 0 [c0, c1, c2]"
  have vec: "list_all (\<lambda>ic. vector_ok (embedding_or_none prov cfg ic)) ?ics"
    unfolding list_all_iff
  proof
    fix ic assume "ic \<in> set ?ics"
    with valid have v: "\<forall>v. generate_embedding prov cfg (fst ic) (snd ic) = Inr v
                           \<longrightarrow> length v = 1536"
      by (rule bspec)
    show "vector_ok (embedding_or_none prov cfg ic)"
    proof (cases "generate_embedding prov cfg (fst ic) (snd ic)")
      case (Inl e)
      then show ?thesis by (simp add: vector_ok_def embedding_or_none_def)
    next
      case (Inr w)
      with v have "length w = 1536" by blast
      with Inr show ?thesis by (simp add: vector_ok_def embedding_or_none_def)
    qed
  qed
  from create_document_chunks[OF ch row vec]
  obtain document st' where
    r0: "create_document prov cfg st dd chunk_size chunk_overlap = Some (Inr (document, st'))
       \<and> document \<in> set (documents st')
       \<and> doc_content document = dc_content dd
       \<and> map chunk_index (select_document_chunks st' (doc_id document)) = [0..<length [c0, c1, c2]]
       \<and> map chunk_content (select_document_chunks st' (doc_id document)) = [c0, c1, c2]
       \<and> map chunk_embedding (select_document_chunks st' (doc_id document))
             = map (embedding_or_none prov cfg) (enumerate 0 [c0, c1, c2])"
    by (elim exE)
  have r: "create_document prov cfg st dd chunk_size chunk_overlap = Some (Inr (document, st'))"
       "document \<in> set (documents st')"
       "map chunk_index (select_document_chunks st' (doc_id document)) = [0..<length [c0, c1, c2]]"
       "map chunk_content (select_document_chunks st' (doc_id document)) = [c0, c1, c2]"
       "map chunk_embedding (select_document_chunks st' (doc_id document))
             = map (embedding_or_none prov cfg) (enumerate 0 [c0, c1, c2])"
    using r0 by simp_all
  let ?cs = "select_document_chunks st' (doc_id document)"
  have none_iff: "\<And>ic. (embedding_or_none prov cfg ic = None)
                    = isl (generate_embedding prov cfg (fst ic) (snd ic))"
    by (simp add: embedding_or_none_def split: sum.splits)
  have "length (filter (\<lambda>c. chunk_embedding c = None) ?cs)
          = length (filter (\<lambda>e. e = None) (map chunk_embedding ?cs))"
    by (simp add: filter_map comp_def)
  also have "\<dots> = length (filter (\<lambda>ic. embedding_or_none prov cfg ic = None) ?ics)"
    by (simp only: r(5) filter_map comp_def length_map)
  also have "\<dots> = 1" using one by (simp only: none_iff)
  finally have n1: "length (filter (\<lambda>c. chunk_embedding c = None) ?cs) = 1" .
  have "length ?cs = 3" using arg_cong[OF r(4), of length] by simp
  with n1 sum_length_filter_compl[of "\<lambda>c. chunk_embedding c = None" ?cs]
  have n2: "length (filter (\<lambda>c. chunk_embedding c \<noteq> None) ?cs) = 2" by simp
  have idx: "map chunk_index ?cs = [0, 1, 2]"
    using r(3) by (simp add: upt_rec)
  have "list_all (\<lambda>e. vector_ok e) (map chunk_embedding ?cs)"
    using vec by (simp only: r(5)) (simp add: list_all_iff)
  then have vok: "list_all (\<lambda>c. vector_ok (chunk_embedding c)) ?cs"
    by (simp add: list_all_iff)
  show ?thesis
    by (intro exI[of _ document] exI[of _ st'] conjI) (rule r(1) r(2) idx r(4) n1 n2 vok)+
qed

lemma chunk_abc: "chunk_text ''abcdefg'' 3 0 = Some [''abc'', ''def'', ''g'']"
  by (simp add: chunk_text_def chunk_loop.simps py_slice_def py_clamp_def)

theorem create_document_one_embedding_failure_witness:
  "chunk_text (dc_content \<lparr>dc_title = ''t'', dc_content = ''abcdefg'', dc_mime_type = None,
                            dc_metadata = [], dc_user_id = 7\<rparr>) 3 0 = Some [''abc'', ''def'', ''g'']
   \<and> length (filter (\<lambda>ic. isl (generate_embedding flaky_provider default_settings (fst ic) (snd ic)))
               (enumerate 0 [''abc'', ''def'', ''g''])) = 1
   \<and> document_row_ok fresh_db
        (new_document fresh_db \<lparr>dc_title = ''t'', dc_content = ''abcdefg'', dc_mime_type = None,
                                dc_metadata = [], dc_user_id = 7\<rparr>)
   \<and> (\<exists>document st'.
         create_document flaky_provider default_settings fresh_db
           \<lparr>dc_title = ''t'', dc_content = ''abcdefg'', dc_mime_type = None,
            dc_metadata = [], dc_user_id = 7\<rparr> 3 0 = Some (Inr (document, st'))
         \<and> length (filter (\<lambda>c. chunk_embedding c = None)
              (select_document_chunks st' (doc_id document))) = 1
         \<and> length (filter (\<lambda>c. chunk_embedding c \<noteq> None)
              (select_document_chunks st' (doc_id document))) = 2)"
proof -
  let ?dd = "\<lparr>dc_title = ''t'', dc_content = ''abcdefg'', dc_mime_type = None,
              dc_metadata = [], dc_user_id = 7\<rparr>"
  have ch: "chunk_text (dc_content ?dd) 3 0 = Some [''abc'', ''def'', ''g'']"
    by (simp add: chunk_abc)
  have one: "length (filter (\<lambda>ic. isl (generate_embedding flaky_provider default_settings (fst ic) (snd ic)))
               (enumerate 0 [''abc'', ''def'', ''g''])) = 1"
    by (simp add: generate_embedding_def flaky_provider_def offline_provider_def)
  have valid: "\<forall>ic \<in> set (enumerate 0 [''abc'', ''def'', ''g'']). \<forall>v.
         generate_embedding flaky_provider default_settings (fst ic) (snd ic) = Inr v
         \<longrightarrow> length v = 1536"
    by (auto simp: generate_embedding_def flaky_provider_def offline_provider_def)
  have row: "document_row_ok fresh_db (new_document fresh_db ?dd)"
    by (simp add: document_row_ok_def new_document_def fresh_db_def text_ok_def)
  from create_document_one_embedding_failure[OF ch one valid row]
  have "\<exists>document st'.
         create_document flaky_provider default_settings fresh_db ?dd 3 0 = Some (Inr (document, st'))
         \<and> length (filter (\<lambda>c. chunk_embedding c = None)
              (select_document_chunks st' (doc_id document))) = 1
         \<and> length (filter (\<lambda>c. chunk_embedding c \<noteq> None)
              (select_document_chunks st' (doc_id document))) = 2"
    by (elim exE conjE) (intro exI conjI, assumption+)
  with ch one row show ?thesis by (intro conjI)
qed

text \<open>
  C7 as stated fails: when the two embeddings that are returned have one component, the
  commit rejects their rows and the ingestion raises; no document is created.
\<close>

theorem create_document_short_vector_counterexample:
  "chunk_text ''abcdefg'' 3 0 = Some [''abc'', ''def'', ''g'']
   \<and> length (filter (\<lambda>ic. isl (generate_embedding short_vector_provider default_settings
                                    (fst ic) (snd ic)))
               (enumerate 0 [''abc'', ''def'', ''g''])) = 1
   \<and> create_document short_vector_provider default_settings fresh_db
        \<lparr>dc_title = ''t'', dc_content = ''abcdefg'', dc_mime_type = None,
         dc_metadata = [], dc_user_id = 7\<rparr> 3 0
      = Some (Inl (StorageError ''flush of document_chunks row rejected''))"
  by (simp add: chunk_abc create_document_def new_document_def document_row_ok_def text_ok_def
      fresh_db_def added_chunks_def chunk_row_ok_def vector_ok_def generate_embedding_def
      short_vector_provider_def offline_provider_def Let_def)

text \<open>The state \<open>stored_old\<close> is what \<^verbatim>\<open>create_document\<close> commits.\<close>

lemma stored_old_created:
  "create_document offline_provider default_settings fresh_db
     \<lparr>dc_title = ''t'', dc_content = ''old'', dc_mime_type = None, dc_metadata = [], dc_user_id = 7\<rparr>
     1000 200
   = Some (Inr (hd (documents stored_old), stored_old))"
  by (simp add: create_document_def new_document_def document_row_ok_def text_ok_def
      added_chunks_def chunk_row_ok_def vector_ok_def
      chunk_text_def chunk_loop.simps py_slice_def py_clamp_def
      uuid4_def used_ids_def fresh_db_def stored_old_def utf8_len_def generate_embedding_def
      offline_provider_def Let_def)

text \<open>
  C2. Replacing the content \<^verbatim>\<open>"old"\<close> of the stored document by \<^verbatim>\<open>"new"\<close> leaves the old
  chunk in place: the committed chunks of the document are the old chunk and the new one,
  both with \<open>chunk_index = 0\<close>.
\<close>

theorem update_document_keeps_old_chunks:
  "map_option (map_sum id (\<lambda>r. map (\<lambda>c. (chunk_index c, chunk_content c))
                                (select_document_chunks (snd r) 1)))
     (update_document offline_provider default_settings stored_old 1 7
        \<lparr>du_title = None, du_content = Some ''new'', du_metadata = None\<rparr>)
   = Some (Inr [(0, ''old''), (0, ''new'')])"
  by (simp add: update_document_def rechunk_document_def store_document_def
      document_row_ok_def text_ok_def added_chunks_def chunk_row_ok_def vector_ok_def
      select_document_chunks_def chunk_text_def chunk_loop.simps py_slice_def py_clamp_def
      uuid4_def used_ids_def stored_old_def generate_embedding_def offline_provider_def Let_def)

section \<open>Properties of the memory store\<close>

text \<open>Every row that comes out of the evaluation carries the distance of its own embedding.\<close>

lemma eval_distances_keyed:
  "eval_distances distance q rows = Inr keyed \<Longrightarrow>
     \<forall>p \<in> set keyed. row_distance distance q (fst p) = Inr (snd p)"
proof (induction rows arbitrary: keyed)
  case Nil
  then show ?case by simp
next
  case (Cons m ms)
  from Cons.prems obtain d rest where
    d: "row_distance distance q m = Inr d" and
    rest: "eval_distances distance q ms = Inr rest" and
    k: "keyed = (m, d) # rest"
    by (auto split: sum.splits)
  from Cons.IH[OF rest] d k show ?case by simp
qed

lemma sort_position_keyed:
  "row_distance distance q (fst p) = Inr (snd p) \<Longrightarrow>
     sort_position distance q (fst p) = nulls_last (snd p)"
  by (simp add: sort_position_def)

text \<open>
  C5 (as amended). For every owner, query and stored memory set, every distance operator
  and every scan order of the engine: if the query embedding is obtained and the query
  does not raise, the list returned by \<^verbatim>\<open>search_memories\<close> is in ascending order of the
  distance of each memory's embedding to the query embedding, that is descending
  similarity, memories without an embedding last.
\<close>

theorem search_memories_distance_order:
  assumes emb: "generate_embedding prov cfg 0 (sr_query request) = Inr q"
      and res: "search_memories distance scan prov cfg st user_id request = Inr ms"
  shows "sorted (map (sort_position distance q) ms)
         \<and> (\<forall>m \<in> set ms. \<exists>d. row_distance distance q m = Inr d)"
proof -
  from res emb obtain rows keyed n where
    ev: "eval_distances distance q rows = Inr keyed" and
    ms: "ms = map fst (take n (sort_key (\<lambda>p. nulls_last (snd p)) keyed))"
    by (auto simp: search_memories_def Let_def split: sum.splits)
  let ?ps = "take n (sort_key (\<lambda>p. nulls_last (snd p)) keyed)"
  have sub: "set ?ps \<subseteq> set keyed"
    using set_take_subset[of n "sort_key (\<lambda>p. nulls_last (snd p)) keyed"] by simp
  have key: "\<forall>p \<in> set ?ps. row_distance distance q (fst p) = Inr (snd p)"
    using eval_distances_keyed[OF ev] sub by blast
  have "sorted (map (\<lambda>p. nulls_last (snd p)) (sort_key (\<lambda>p. nulls_last (snd p)) keyed))"
    by (rule sorted_sort_key)
  then have "sorted (take n (map (\<lambda>p. nulls_last (snd p)) (sort_key (\<lambda>p. nulls_last (snd p)) keyed)))"
    by (rule sorted_wrt_take)
  then have s: "sorted (map (\<lambda>p. nulls_last (snd p)) ?ps)"
    by (simp add: take_map)
  have "map (sort_position distance q) ms = map (\<lambda>p. sort_position distance q (fst p)) ?ps"
    by (simp add: ms comp_def)
  also have "\<dots> = map (\<lambda>p. nulls_last (snd p)) ?ps"
    using key by (intro map_cong refl sort_position_keyed) blast
  finally have "sorted (map (sort_position distance q) ms)" using s by simp
  moreover have "\<forall>m \<in> set ms. \<exists>d. row_distance distance q m = Inr d"
    using key by (auto simp: ms)
  ultimately show ?thesis by blast
qed

text \<open>The cosine distance between vectors of equal or of opposite components.\<close>

lemma cosine_same:
  "0 < n \<Longrightarrow> cosine_distance (replicate n 1) (replicate n 1) = Inr (False, 0)"
  by (simp add: cosine_distance_def sum_list_replicate Let_def)

lemma cosine_opposite:
  "0 < n \<Longrightarrow> cosine_distance (replicate n (- 1)) (replicate n 1) = Inr (False, 2)"
  by (simp add: cosine_distance_def sum_list_replicate Let_def)

lemma cosine_1536:
  "cosine_distance (replicate 1536 1) (replicate 1536 1) = Inr (False, 0)"
  "cosine_distance (replicate 1536 (- 1)) (replicate 1536 1) = Inr (False, 2)"
  by (simp_all add: cosine_same cosine_opposite)

lemma tea_embedding:
  "generate_embedding ones_provider default_settings 0 (sr_query tea_request)
     = Inr (replicate 1536 1)"
  by (simp add: generate_embedding_def ones_provider_def offline_provider_def)

lemma tea_search_far_near:
  "search_memories cosine_distance (\<lambda>rows. rows) ones_provider default_settings
        (tea_db [note_memory 1 0.5 1 (- 1), note_memory 2 0.5 2 1]) 7 tea_request
      = Inr [note_memory 2 0.5 2 1, note_memory 1 0.5 1 (- 1)]"
  by (simp add: search_memories_def generate_embedding_def ones_provider_def
        offline_provider_def tea_db_def tea_request_def truthy_def
        note_memory_def row_distance_def nulls_last_def cosine_1536)

theorem search_memories_distance_order_witness:
  "generate_embedding ones_provider default_settings 0 (sr_query tea_request)
     = Inr (replicate 1536 1)
   \<and> search_memories cosine_distance (\<lambda>rows. rows) ones_provider default_settings
        (tea_db [note_memory 1 0.5 1 (- 1), note_memory 2 0.5 2 1]) 7 tea_request
      = Inr [note_memory 2 0.5 2 1, note_memory 1 0.5 1 (- 1)]
   \<and> sorted (map (sort_position cosine_distance (replicate 1536 1))
        [note_memory 2 0.5 2 1, note_memory 1 0.5 1 (- 1)])"
proof -
  from search_memories_distance_order[OF tea_embedding tea_search_far_near]
  have "sorted (map (sort_position cosine_distance (replicate 1536 1))
        [note_memory 2 0.5 2 1, note_memory 1 0.5 1 (- 1)])"
    by (rule conjunct1)
  with tea_embedding tea_search_far_near show ?thesis by (intro conjI)
qed

text \<open>
  C5 as stated fails: of two memories at the same distance from the query, the less
  important and older one is returned first when the engine delivers it first.
\<close>

theorem search_memories_tie_counterexample:
  "search_memories cosine_distance (\<lambda>rows. rows) ones_provider default_settings
        (tea_db [note_memory 1 0.2 1 1, note_memory 2 0.9 2 1]) 7 tea_request
      = Inr [note_memory 1 0.2 1 1, note_memory 2 0.9 2 1]
   \<and> \<not> sorted_wrt (spec_precedes cosine_distance (replicate 1536 1))
        [note_memory 1 0.2 1 1, note_memory 2 0.9 2 1]"
proof -
  have s: "search_memories cosine_distance (\<lambda>rows. rows) ones_provider default_settings
        (tea_db [note_memory 1 0.2 1 1, note_memory 2 0.9 2 1]) 7 tea_request
      = Inr [note_memory 1 0.2 1 1, note_memory 2 0.9 2 1]"
    by (simp add: search_memories_def generate_embedding_def ones_provider_def
        offline_provider_def tea_db_def tea_request_def truthy_def
        note_memory_def row_distance_def nulls_last_def cosine_1536)
  have "\<not> spec_precedes cosine_distance (replicate 1536 1)
           (note_memory 1 0.2 1 1) (note_memory 2 0.9 2 1)"
    by (simp add: spec_precedes_def sort_position_def row_distance_def note_memory_def
        nulls_last_def cosine_1536)
  with s show ?thesis by simp
qed

section \<open>Properties of the context assembly\<close>





section \<open>Properties of the completion route\<close>

text \<open>
  C6 (as amended). For every completion request whose model identifier starts with none
  of \<^verbatim>\<open>claude\<close>, \<^verbatim>\<open>gemini\<close>, \<^verbatim>\<open>gemma\<close>: the dispatch \<^verbatim>\<open>AIClient.chat_completion\<close> fails
  with the error "Unsupported model" and itself constructs no client or model handle and
  sends no network request; and when the context fetches of the route succeed, the route
  fails with that error, its effects being the three constructions of \<^verbatim>\<open>AIClient\<close> and
  the effects of the context fetches, and nothing of any adapter.
\<close>

theorem unsupported_model_fails_at_dispatch:
  assumes "\<not> prefix ''claude'' (req_model request)"
      and "\<not> prefix ''gemini'' (req_model request)"
      and "\<not> prefix ''gemma'' (req_model request)"
  shows "chat_completion self prov (req_model request) messages samp stream system_prompt ext
           = ([], Inl (ValueError (''Unsupported model: '' @ req_model request)))
         \<and> (\<forall>effs ctx.
               route_contexts distance scan prov cfg st user_id request get_rag_context
                 get_grounding_context = (effs, Inr ctx) \<longrightarrow>
               completion_route distance scan prov cfg st user_id request get_rag_context
                 get_grounding_context
               = (fst (AIClient_init cfg) @ fst (AIClient_init cfg) @ fst (AIClient_init cfg)
                    @ effs,
                  Inl (ValueError (''Unsupported model: '' @ req_model request))))"
proof (intro conjI allI impI)
  show "chat_completion self prov (req_model request) messages samp stream system_prompt ext
           = ([], Inl (ValueError (''Unsupported model: '' @ req_model request)))"
    using assms by (simp add: chat_completion_def)
next
  fix effs ctx
  assume rc: "route_contexts distance scan prov cfg st user_id request get_rag_context
                 get_grounding_context = (effs, Inr ctx)"
  obtain memory_context rag_context web_context where
    ctx: "ctx = (memory_context, rag_context, web_context)" by (cases ctx)
  have d: "service_chat_completion (snd (AIClient_init cfg)) prov request
             memory_context rag_context web_context
           = ([], Inl (ValueError (''Unsupported model: '' @ req_model request)))"
    using assms by (simp add: service_chat_completion_def chat_completion_def Let_def)
  show "completion_route distance scan prov cfg st user_id request get_rag_context
                 get_grounding_context
               = (fst (AIClient_init cfg) @ fst (AIClient_init cfg) @ fst (AIClient_init cfg)
                    @ effs,
                  Inl (ValueError (''Unsupported model: '' @ req_model request)))"
    by (simp add: completion_route_def rc ctx d Let_def)
qed

lemma gpt_route_contexts:
  "route_contexts cosine_distance (\<lambda>rows. rows) ones_provider cfg (tea_db []) 7
     (tea_chat_request\<lparr>req_model := ''gpt-4o''\<rparr>) (\<lambda>q. ([], Inr [])) (\<lambda>q. ([], Inr []))
   = (generate_embedding_effects, Inr (Some [], None, None))"
  by (simp add: route_contexts_def get_relevant_memories_for_query_def search_memories_def
      generate_embedding_def ones_provider_def offline_provider_def tea_db_def
      tea_chat_request_def last_message_def truthy_def)

theorem unsupported_model_fails_at_dispatch_witness:
  "\<not> prefix ''claude'' (req_model (tea_chat_request\<lparr>req_model := ''gpt-4o''\<rparr>))
   \<and> \<not> prefix ''gemini'' (req_model (tea_chat_request\<lparr>req_model := ''gpt-4o''\<rparr>))
   \<and> \<not> prefix ''gemma'' (req_model (tea_chat_request\<lparr>req_model := ''gpt-4o''\<rparr>))
   \<and> route_contexts cosine_distance (\<lambda>rows. rows) ones_provider default_settings (tea_db []) 7
        (tea_chat_request\<lparr>req_model := ''gpt-4o''\<rparr>) (\<lambda>q. ([], Inr [])) (\<lambda>q. ([], Inr []))
      = (generate_embedding_effects, Inr (Some [], None, None))
   \<and> completion_route cosine_distance (\<lambda>rows. rows) ones_provider default_settings (tea_db []) 7
        (tea_chat_request\<lparr>req_model := ''gpt-4o''\<rparr>) (\<lambda>q. ([], Inr [])) (\<lambda>q. ([], Inr []))
      = (generate_embedding_effects, Inl (ValueError ''Unsupported model: gpt-4o''))"
proof -
  let ?r = "tea_chat_request\<lparr>req_model := ''gpt-4o''\<rparr>"
  have m: "req_model ?r = ''gpt-4o''" by simp
  have p: "\<not> prefix ''claude'' (req_model ?r)" "\<not> prefix ''gemini'' (req_model ?r)"
    "\<not> prefix ''gemma'' (req_model ?r)" by (simp_all only: m) simp_all
  have i: "fst (AIClient_init default_settings) = []"
    by (simp add: AIClient_init_def default_settings_def truthy_def)
  note route = unsupported_model_fails_at_dispatch[OF p,
      where distance = cosine_distance and scan = "\<lambda>rows. rows" and prov = ones_provider
        and cfg = default_settings and st = "tea_db []" and user_id = 7
        and get_rag_context = "\<lambda>q. ([], Inr [])" and get_grounding_context = "\<lambda>q. ([], Inr [])",
      THEN conjunct2, rule_format, OF gpt_route_contexts[of default_settings]]
  have "completion_route cosine_distance (\<lambda>rows. rows) ones_provider default_settings (tea_db []) 7
        ?r (\<lambda>q. ([], Inr [])) (\<lambda>q. ([], Inr []))
      = (fst (AIClient_init default_settings) @ fst (AIClient_init default_settings)
           @ fst (AIClient_init default_settings) @ generate_embedding_effects,
         Inl (ValueError (''Unsupported model: '' @ req_model ?r)))"
    by (rule route)
  then have "completion_route cosine_distance (\<lambda>rows. rows) ones_provider default_settings (tea_db []) 7
        ?r (\<lambda>q. ([], Inr [])) (\<lambda>q. ([], Inr []))
      = (generate_embedding_effects, Inl (ValueError ''Unsupported model: gpt-4o''))"
    unfolding i m by simp
  with p gpt_route_contexts[of default_settings] show ?thesis by (intro conjI)
qed

text \<open>
  C6 as stated fails for the request as a whole: with an Anthropic key configured, a
  request for the model \<^verbatim>\<open>gpt-4o\<close> fails with "Unsupported model" only after the Anthropic
  client has been constructed three times, the embedding model handle loaded and the
  embedding request of the memory fetch sent.
\<close>

theorem unsupported_model_route_counterexample:
  "\<not> prefix ''claude'' ''gpt-4o'' \<and> \<not> prefix ''gemini'' ''gpt-4o'' \<and> \<not> prefix ''gemma'' ''gpt-4o''
   \<and> completion_route cosine_distance (\<lambda>rows. rows) ones_provider keyed_settings (tea_db []) 7
        (tea_chat_request\<lparr>req_model := ''gpt-4o''\<rparr>) (\<lambda>q. ([], Inr [])) (\<lambda>q. ([], Inr []))
      = ([ClientConstructed ''anthropic.AsyncAnthropic'',
          ClientConstructed ''anthropic.AsyncAnthropic'',
          ClientConstructed ''anthropic.AsyncAnthropic'',
          ClientConstructed ''vertexai.TextEmbeddingModel.from_pretrained'',
          NetworkCall ''vertexai.get_embeddings_async''],
         Inl (ValueError ''Unsupported model: gpt-4o''))"
  by (simp add: completion_route_def gpt_route_contexts service_chat_completion_def
      chat_completion_def AIClient_init_def keyed_settings_def default_settings_def truthy_def
      generate_embedding_effects_def Let_def)

end
